theory Spec2Isabelle
  imports Main "HOL-Library.Sublist"
begin

chapter \<open>The stock-request pipeline of \<open>stock_bot.py\<close>\<close>

text \<open>
  The functions \<open>get_stock_data\<close>, \<open>generate_chart\<close>, \<open>get_perplexity_analysis\<close>,
  \<open>format_stock_message\<close> and \<open>handle_stock\<close> as functions of HOL. A raised
  exception is the left summand of the result. What lies outside the repository is a
  parameter: the market data provider, the analysis provider, the faults of the
  plotting library and of the chat transport, and a few builtins of Python.
\<close>

section \<open>Python strings\<close>

text \<open>
  A Python \<open>str\<close> is a sequence of Unicode code points and \<open>len\<close> counts code
  points, so a string is a list of code points. The pictographs of the source's
  literals are single code points (U+1F4CA and so on).
\<close>

type_synonym ustring = "nat list"

definition asc :: "string \<Rightarrow> ustring" where
  "asc s = map of_char s"

definition endswith :: "ustring \<Rightarrow> ustring \<Rightarrow> bool" where
  "endswith s suf = (length suf \<le> length s \<and> drop (length s - length suf) s = suf)"

text \<open>\<open>s.replace(old, '')\<close> for a non-empty \<open>old\<close>: occurrences are removed from
  left to right, without overlap.\<close>

function remove_all :: "ustring \<Rightarrow> ustring \<Rightarrow> ustring" where
  "remove_all old [] = []"
| "remove_all old (c # cs) =
     (if old \<noteq> [] \<and> prefix old (c # cs) then remove_all old (drop (length old) (c # cs))
      else c # remove_all old cs)"
  by pat_completeness auto
termination
  by (relation "measure (\<lambda>(old, s). length s)") (auto simp: prefix_def)

text \<open>The decimal digits of a natural number, and \<open>str\<close> of an \<open>int\<close>.\<close>

fun show_nat :: "nat \<Rightarrow> ustring" where
  "show_nat n = (if n < 10 then [48 + n] else show_nat (n div 10) @ [48 + n mod 10])"

definition show_int :: "int \<Rightarrow> ustring" where
  "show_int i = (if i < 0 then 45 # show_nat (nat (- i)) else show_nat (nat i))"

text \<open>\<open>format(n, ',')\<close> for an \<open>int\<close>: the digits in groups of three.\<close>

fun comma_nat :: "nat \<Rightarrow> ustring" where
  "comma_nat n =
     (if n < 1000 then show_nat n
      else comma_nat (n div 1000) @
           [44, 48 + (n mod 1000) div 100, 48 + (n mod 100) div 10, 48 + n mod 10])"

definition comma_int :: "int \<Rightarrow> ustring" where
  "comma_int i = (if i < 0 then 45 # comma_nat (nat (- i)) else comma_nat (nat i))"

section \<open>Exceptions\<close>

text \<open>
  An exception is an instance of a subclass of \<open>Exception\<close>: its class, as far as the
  \<open>except\<close> clauses of the source tell classes apart, and \<open>str(e)\<close>. The
  messages of the interpreter's own exceptions are those of CPython 3.11.
  \<open>Timeout\<close> is a subclass of \<open>RequestException\<close>.
\<close>

datatype exn_class =
  Timeout | RequestException | KeyError | TypeError | ValueError | IndexError
  | AttributeError | OverflowError | UnboundLocalError | OtherException

datatype pyexn = PyExn exn_class ustring

fun exn_class_of :: "pyexn \<Rightarrow> exn_class" where
  "exn_class_of (PyExn c m) = c"

fun exn_str :: "pyexn \<Rightarrow> ustring" where
  "exn_str (PyExn c m) = m"

definition is_request_exception :: "pyexn \<Rightarrow> bool" where
  "is_request_exception e = (exn_class_of e = Timeout \<or> exn_class_of e = RequestException)"

fun bind_exn :: "pyexn + 'a \<Rightarrow> ('a \<Rightarrow> pyexn + 'b) \<Rightarrow> pyexn + 'b" where
  "bind_exn (Inl e) f = Inl e"
| "bind_exn (Inr x) f = f x"

section \<open>Python numbers\<close>

text \<open>
  A \<open>float\<close> is an IEEE 754 double: \<open>Finite m e\<close> is the number \<open>m * 2 ^ e\<close>
  (\<open>Finite 0 e\<close> is \<open>0.0\<close>), and the other constructors are \<open>-0.0\<close>, the
  infinities and the NaNs. The values of a quote dictionary are the scalars that
  a decoded JSON document holds.
\<close>

datatype pyfloat = Finite int int | NegZero | PosInf | NegInf | NaN

datatype pyval = PNone | PBool bool | PInt int | PFloat pyfloat | PStr ustring

fun bit_length :: "nat \<Rightarrow> nat" where
  "bit_length n = (if n = 0 then 0 else Suc (bit_length (n div 2)))"

text \<open>\<open>a / b\<close> rounded to the nearest integer, a tie to the even one.\<close>

definition div_rhe :: "nat \<Rightarrow> nat \<Rightarrow> nat" where
  "div_rhe a b =
     (let q = a div b; r = a mod b
      in if 2 * r < b \<or> (2 * r = b \<and> even q) then q else q + 1)"

text \<open>
  The double nearest to \<open>a / b * 2 ^ k\<close> for positive \<open>a\<close> and \<open>b\<close> (a tie to
  the even significand), as significand and exponent; \<open>None\<close> when the rounded
  value is beyond the largest double. \<open>l\<close> is the exponent of the leading bit of
  the quotient; a double has 53 significant bits and no exponent below \<open>-1074\<close>.
\<close>

definition nearest_double :: "nat \<Rightarrow> nat \<Rightarrow> int \<Rightarrow> (nat \<times> int) option" where
  "nearest_double a b k =
     (let d = int (bit_length a) - int (bit_length b);
          l = (if (if 0 \<le> d then b * 2 ^ nat d \<le> a else b \<le> a * 2 ^ nat (- d))
               then d else d - 1) + k;
          e = max (l - 52) (- 1074);
          s = k - e;
          m = (if 0 \<le> s then div_rhe (a * 2 ^ nat s) b else div_rhe a (b * 2 ^ nat (- s)))
      in if 0 \<le> e \<and> 2 ^ 1024 \<le> m * 2 ^ nat e then None else Some (m, e))"

definition mk_float :: "bool \<Rightarrow> nat \<Rightarrow> int \<Rightarrow> pyfloat" where
  "mk_float neg m e =
     (if m = 0 then (if neg then NegZero else Finite 0 0)
      else Finite (if neg then - int m else int m) e)"

text \<open>\<open>float(i)\<close>, which \<open>format(i, '.2f')\<close> calls on an \<open>int\<close>.\<close>

definition int_to_float :: "int \<Rightarrow> pyexn + pyfloat" where
  "int_to_float i =
     (if i = 0 then Inr (Finite 0 0)
      else case nearest_double (nat \<bar>i\<bar>) 1 0 of
             None \<Rightarrow> Inl (PyExn OverflowError (asc ''int too large to convert to float''))
           | Some (m, e) \<Rightarrow> Inr (mk_float (i < 0) m e))"

text \<open>\<open>i / n\<close> for an \<open>int\<close> \<open>i\<close> and a positive \<open>int\<close> \<open>n\<close>: the quotient,
  correctly rounded.\<close>

definition int_truediv :: "int \<Rightarrow> nat \<Rightarrow> pyexn + pyfloat" where
  "int_truediv i n =
     (if i = 0 then Inr (Finite 0 0)
      else case nearest_double (nat \<bar>i\<bar>) n 0 of
             None \<Rightarrow> Inl (PyExn OverflowError
                           (asc ''integer division result too large for a float''))
           | Some (m, e) \<Rightarrow> Inr (mk_float (i < 0) m e))"

text \<open>\<open>x / n\<close> for a \<open>float\<close> \<open>x\<close> and a positive \<open>int\<close> \<open>n\<close> that is a double
  itself (as the three constants of the source are).\<close>

fun float_truediv :: "pyfloat \<Rightarrow> nat \<Rightarrow> pyfloat" where
  "float_truediv (Finite m e) n =
     (if m = 0 then Finite 0 0
      else case nearest_double (nat \<bar>m\<bar>) n e of
             None \<Rightarrow> (if m < 0 then NegInf else PosInf)
           | Some (m', e') \<Rightarrow> mk_float (m < 0) m' e')"
| "float_truediv x n = x"

fun float_ge :: "pyfloat \<Rightarrow> int \<Rightarrow> bool" where
  "float_ge (Finite m e) n = (if 0 \<le> e then n \<le> m * 2 ^ nat e else n * 2 ^ nat (- e) \<le> m)"
| "float_ge NegZero n = (n \<le> 0)"
| "float_ge PosInf n = True"
| "float_ge NegInf n = False"
| "float_ge NaN n = False"

text \<open>\<open>format(x, '.2f')\<close> for a \<open>float\<close>: the value rounded to hundredths, a tie
  to the even one.\<close>

definition fixed2 :: "bool \<Rightarrow> nat \<Rightarrow> ustring" where
  "fixed2 neg c =
     (if neg then [45] else []) @ show_nat (c div 100) @ [46, 48 + (c mod 100) div 10, 48 + c mod 10]"

fun float_format_2f :: "pyfloat \<Rightarrow> ustring" where
  "float_format_2f (Finite m e) =
     fixed2 (m < 0)
       (if 0 \<le> e then nat \<bar>m\<bar> * 2 ^ nat e * 100 else div_rhe (nat \<bar>m\<bar> * 100) (2 ^ nat (- e)))"
| "float_format_2f NegZero = asc ''-0.00''"
| "float_format_2f PosInf = asc ''inf''"
| "float_format_2f NegInf = asc ''-inf''"
| "float_format_2f NaN = asc ''nan''"

text \<open>
  What this repository does not decide: \<open>str.upper\<close> and \<open>str.strip\<close> on Unicode
  text, and the shortest-digits \<open>repr\<close> of a \<open>float\<close>, plain and with the
  \<open>','\<close> format. They are parameters of the model.
\<close>

record builtins =
  str_upper :: "ustring \<Rightarrow> ustring"
  str_strip :: "ustring \<Rightarrow> ustring"
  float_repr :: "pyfloat \<Rightarrow> ustring"
  float_comma :: "pyfloat \<Rightarrow> ustring"

text \<open>\<open>isinstance(v, (int, float))\<close>; \<open>bool\<close> is a subclass of \<open>int\<close>.\<close>

fun is_number :: "pyval \<Rightarrow> bool" where
  "is_number (PBool b) = True"
| "is_number (PInt i) = True"
| "is_number (PFloat x) = True"
| "is_number v = False"

fun int_of_bool :: "bool \<Rightarrow> int" where
  "int_of_bool b = (if b then 1 else 0)"

text \<open>\<open>v >= n\<close> and \<open>v / n\<close> for a number \<open>v\<close> and a positive \<open>int\<close> constant \<open>n\<close>.\<close>

fun num_ge :: "pyval \<Rightarrow> int \<Rightarrow> bool" where
  "num_ge (PBool b) n = (n \<le> int_of_bool b)"
| "num_ge (PInt i) n = (n \<le> i)"
| "num_ge (PFloat x) n = float_ge x n"
| "num_ge v n = False"

fun num_truediv :: "pyval \<Rightarrow> nat \<Rightarrow> pyexn + pyfloat" where
  "num_truediv (PBool b) n = int_truediv (int_of_bool b) n"
| "num_truediv (PInt i) n = int_truediv i n"
| "num_truediv (PFloat x) n = Inr (float_truediv x n)"
| "num_truediv v n = Inl (PyExn TypeError (asc ''unsupported operand type(s) for /''))"

text \<open>\<open>f"{v:.2f}"\<close> for a number \<open>v\<close>.\<close>

fun num_format_2f :: "pyval \<Rightarrow> pyexn + ustring" where
  "num_format_2f (PBool b) = bind_exn (int_to_float (int_of_bool b)) (\<lambda>x. Inr (float_format_2f x))"
| "num_format_2f (PInt i) = bind_exn (int_to_float i) (\<lambda>x. Inr (float_format_2f x))"
| "num_format_2f (PFloat x) = Inr (float_format_2f x)"
| "num_format_2f v = Inl (PyExn ValueError (asc ''Unknown format code f''))"

text \<open>\<open>f"{v}"\<close>, that is \<open>str(v)\<close>.\<close>

fun py_str :: "builtins \<Rightarrow> pyval \<Rightarrow> ustring" where
  "py_str lib PNone = asc ''None''"
| "py_str lib (PBool b) = (if b then asc ''True'' else asc ''False'')"
| "py_str lib (PInt i) = show_int i"
| "py_str lib (PFloat x) = float_repr lib x"
| "py_str lib (PStr s) = s"

text \<open>\<open>f"{v:,}"\<close>: a \<open>str\<close> and \<open>None\<close> reject the format.\<close>

fun py_format_comma :: "builtins \<Rightarrow> pyval \<Rightarrow> pyexn + ustring" where
  "py_format_comma lib PNone =
     Inl (PyExn TypeError (asc ''unsupported format string passed to NoneType.__format__''))"
| "py_format_comma lib (PBool b) = Inr (comma_int (int_of_bool b))"
| "py_format_comma lib (PInt i) = Inr (comma_int i)"
| "py_format_comma lib (PFloat x) = Inr (float_comma lib x)"
| "py_format_comma lib (PStr s) =
     Inl (PyExn ValueError (asc ''Cannot specify ',' with 's'.''))"

section \<open>The data model\<close>

type_synonym info = "(ustring \<times> pyval) list"

text \<open>The price history: the rows of the data frame, a date and a closing price.\<close>

type_synonym history = "(nat \<times> pyfloat) list"

text \<open>
  The dictionary that \<open>get_stock_data\<close> returns has at most the keys
  \<open>'success'\<close>, \<open>'error'\<close>, \<open>'info'\<close> and \<open>'history'\<close>; a field is \<open>None\<close> when
  the dictionary has no such key.
\<close>

record stock_data =
  success :: "bool option"
  error :: "ustring option"
  info :: "info option"
  history :: "history option"

definition empty_dict :: stock_data where
  "empty_dict = \<lparr>success = None, error = None, info = None, history = None\<rparr>"

text \<open>\<open>d[key]\<close> raises \<open>KeyError\<close> on a missing key; \<open>d.get(key, default)\<close> does not.\<close>

definition getitem :: "string \<Rightarrow> 'a option \<Rightarrow> pyexn + 'a" where
  "getitem key field =
     (case field of None \<Rightarrow> Inl (PyExn KeyError (asc ([CHR 0x27] @ key @ [CHR 0x27])))
      | Some v \<Rightarrow> Inr v)"

definition info_get :: "info \<Rightarrow> string \<Rightarrow> pyval \<Rightarrow> pyval" where
  "info_get i key dflt = (case map_of i (asc key) of None \<Rightarrow> dflt | Some v \<Rightarrow> v)"

definition NA :: pyval where
  "NA = PStr (asc ''N/A'')"

section \<open>Symbol resolution (\<open>get_stock_data\<close>, lines 62-66)\<close>

definition allow_list :: "ustring list" where
  "allow_list = [asc ''RELIANCE'', asc ''TCS'', asc ''HDFCBANK'', asc ''INFY'',
                 asc ''SBIN'', asc ''TATAMOTORS'', asc ''WIPRO'']"

definition resolve_symbol :: "ustring \<Rightarrow> ustring" where
  "resolve_symbol symbol =
     (if \<not> (endswith symbol (asc ''.NS'') \<or> endswith symbol (asc ''.BO''))
      then (if symbol \<in> set allow_list then symbol @ asc ''.NS'' else symbol)
      else symbol)"

section \<open>The market data client (\<open>get_stock_data\<close>)\<close>

text \<open>
  The provider is outside the repository: \<open>ticker_info symbol\<close> is what
  \<open>yf.Ticker(symbol).info\<close> yields and \<open>ticker_history symbol\<close> what
  \<open>stock.history(start, end)\<close> yields for the thirty days before the call, each a
  value or an exception.
\<close>

record provider =
  ticker_info :: "ustring \<Rightarrow> pyexn + info"
  ticker_history :: "ustring \<Rightarrow> pyexn + history"

definition try_except :: "pyexn + 'a \<Rightarrow> (pyexn \<Rightarrow> pyexn + 'a) \<Rightarrow> pyexn + 'a" where
  "try_except body handler = (case body of Inl e \<Rightarrow> handler e | Inr x \<Rightarrow> Inr x)"

definition failure :: "ustring \<Rightarrow> stock_data" where
  "failure msg = empty_dict\<lparr>success := Some False, error := Some msg\<rparr>"

definition no_data_hint :: "ustring \<Rightarrow> ustring" where
  "no_data_hint symbol =
     asc ''No data available for '' @ symbol @
     asc ''. If this is an Indian stock, try adding .NS (for NSE) or .BO (for BSE) to the symbol.''"

definition no_data_plain :: ustring where
  "no_data_plain = asc ''No data available for this symbol. Please check if the symbol is correct.''"

text \<open>The body of the \<open>try\<close> block, lines 61-104.\<close>

definition get_stock_data_try :: "provider \<Rightarrow> ustring \<Rightarrow> pyexn + stock_data" where
  "get_stock_data_try p original_symbol =
     (let symbol = resolve_symbol original_symbol
      in bind_exn (ticker_info p symbol) (\<lambda>info.
           if info = [] \<or> map_of info (asc ''regularMarketPrice'') = None
           then (if original_symbol = symbol
                 then Inr (failure (no_data_hint symbol))
                 else Inr (failure no_data_plain))
           else bind_exn (ticker_history p symbol) (\<lambda>history.
                  if history = []
                  then Inr (failure (asc ''No historical data available''))
                  else Inr (empty_dict\<lparr>info := Some info, history := Some history,
                                        success := Some True\<rparr>))))"

definition get_stock_data :: "provider \<Rightarrow> ustring \<Rightarrow> pyexn + stock_data" where
  "get_stock_data p symbol =
     try_except (get_stock_data_try p symbol) (\<lambda>e. Inr (failure (exn_str e)))"

section \<open>Programs with state\<close>

text \<open>A call that changes a state and returns a value or raises.\<close>

type_synonym ('s, 'a) prog = "'s \<Rightarrow> (pyexn + 'a) \<times> 's"

definition prog_pure :: "pyexn + 'a \<Rightarrow> ('s, 'a) prog" where
  "prog_pure r = (\<lambda>s. (r, s))"

definition prog_bind :: "('s, 'a) prog \<Rightarrow> ('a \<Rightarrow> ('s, 'b) prog) \<Rightarrow> ('s, 'b) prog" where
  "prog_bind m f = (\<lambda>s. case m s of (Inl e, s') \<Rightarrow> (Inl e, s') | (Inr x, s') \<Rightarrow> f x s')"

definition prog_then :: "('s, 'a) prog \<Rightarrow> ('s, 'b) prog \<Rightarrow> ('s, 'b) prog" where
  "prog_then m n = prog_bind m (\<lambda>_. n)"

definition prog_catch :: "('s, 'a) prog \<Rightarrow> (pyexn \<Rightarrow> ('s, 'a) prog) \<Rightarrow> ('s, 'a) prog" where
  "prog_catch m h = (\<lambda>s. case m s of (Inl e, s') \<Rightarrow> h e s' | (Inr x, s') \<Rightarrow> (Inr x, s'))"

section \<open>The chart renderer (\<open>generate_chart\<close>)\<close>

text \<open>
  The state of \<open>matplotlib.pyplot\<close> that matters is the figures it holds open, by
  number. The calls of \<open>generate_chart\<close>, in the order of the source:
\<close>

record plt_state =
  figures :: "nat list"

datatype plt_call =
  UseAgg | Clf | NewFigure | AddSubplot | Plot | SetTitle | SetXlabel | SetYlabel | Grid
  | Xticks | TightLayout | Savefig | Seek | CloseFig

text \<open>The image that \<open>savefig\<close> writes into the buffer is the plot of the history.\<close>

datatype chart_buf = ChartBuf history

text \<open>
  Each call may raise; which one does, and what, is decided outside the repository
  (\<open>fault\<close>). A call that raises has no effect.
\<close>

definition plt_do :: "(plt_call \<Rightarrow> pyexn option) \<Rightarrow> plt_call \<Rightarrow> (plt_state \<Rightarrow> 'a \<times> plt_state)
    \<Rightarrow> (plt_state, 'a) prog" where
  "plt_do fault c effect =
     (\<lambda>s. case fault c of Some e \<Rightarrow> (Inl e, s)
          | None \<Rightarrow> (case effect s of (x, s') \<Rightarrow> (Inr x, s')))"

definition no_effect :: "plt_state \<Rightarrow> unit \<times> plt_state" where
  "no_effect s = ((), s)"

text \<open>\<open>plt.clf()\<close> clears the current figure, and opens one when none is open.\<close>

definition clf_effect :: "plt_state \<Rightarrow> unit \<times> plt_state" where
  "clf_effect s = ((), if figures s = [] then s\<lparr>figures := [1]\<rparr> else s)"

text \<open>\<open>plt.figure()\<close> opens a figure under the next free number.\<close>

definition figure_effect :: "plt_state \<Rightarrow> nat \<times> plt_state" where
  "figure_effect s =
     (let fig = Suc (fold max (figures s) 0) in (fig, s\<lparr>figures := figures s @ [fig]\<rparr>))"

definition close_effect :: "nat \<Rightarrow> plt_state \<Rightarrow> unit \<times> plt_state" where
  "close_effect fig s = ((), s\<lparr>figures := removeAll fig (figures s)\<rparr>)"

fun plt_calls :: "(plt_call \<Rightarrow> pyexn option) \<Rightarrow> plt_call list \<Rightarrow> (plt_state, unit) prog" where
  "plt_calls fault [] = prog_pure (Inr ())"
| "plt_calls fault (c # cs) = prog_then (plt_do fault c no_effect) (plt_calls fault cs)"

text \<open>The body of the \<open>try\<close> block, lines 112-146.\<close>

definition generate_chart_try :: "(plt_call \<Rightarrow> pyexn option) \<Rightarrow> history \<Rightarrow> (plt_state, chart_buf) prog" where
  "generate_chart_try fault hist =
     prog_then (plt_do fault UseAgg no_effect)
    (prog_then (plt_do fault Clf clf_effect)
    (prog_bind (plt_do fault NewFigure figure_effect) (\<lambda>fig.
     prog_then (plt_calls fault [AddSubplot, Plot, SetTitle, SetXlabel, SetYlabel, Grid,
                                 Xticks, TightLayout, Savefig, Seek])
    (prog_then (plt_do fault CloseFig (close_effect fig))
    (prog_pure (Inr (ChartBuf hist)))))))"

definition generate_chart :: "(plt_call \<Rightarrow> pyexn option) \<Rightarrow> history \<Rightarrow> (plt_state, chart_buf) prog" where
  "generate_chart fault hist =
     prog_catch (generate_chart_try fault hist)
       (\<lambda>e. prog_pure (Inl (PyExn OtherException
                               (asc ''Failed to generate chart: '' @ exn_str e))))"

text \<open>The figure that a run of \<open>generate_chart\<close> creates, when it gets that far.\<close>

definition created_figure :: "(plt_call \<Rightarrow> pyexn option) \<Rightarrow> plt_state \<Rightarrow> nat option" where
  "created_figure fault s =
     (case prog_then (plt_do fault UseAgg no_effect)
            (prog_then (plt_do fault Clf clf_effect) (plt_do fault NewFigure figure_effect)) s of
        (Inl e, s') \<Rightarrow> None
      | (Inr fig, s') \<Rightarrow> Some fig)"

section \<open>The analysis client (\<open>get_perplexity_analysis\<close>)\<close>

text \<open>A Python object as \<open>response.json()\<close> builds it.\<close>

datatype pyobj =
  JNone | JBool bool | JInt int | JFloat pyfloat | JStr ustring | JList "pyobj list"
  | JDict "(ustring \<times> pyobj) list"

fun type_name :: "pyobj \<Rightarrow> string" where
  "type_name JNone = ''NoneType''"
| "type_name (JBool b) = ''bool''"
| "type_name (JInt i) = ''int''"
| "type_name (JFloat x) = ''float''"
| "type_name (JStr s) = ''str''"
| "type_name (JList xs) = ''list''"
| "type_name (JDict kvs) = ''dict''"

definition type_error :: "string \<Rightarrow> pyobj \<Rightarrow> string \<Rightarrow> pyexn" where
  "type_error front obj back =
     PyExn TypeError (asc (front @ [CHR 0x27] @ type_name obj @ [CHR 0x27] @ back))"

text \<open>\<open>key in obj\<close> for a \<open>str\<close> key.\<close>

fun obj_contains :: "ustring \<Rightarrow> pyobj \<Rightarrow> pyexn + bool" where
  "obj_contains key (JDict kvs) = Inr (map_of kvs key \<noteq> None)"
| "obj_contains key (JList xs) = Inr (JStr key \<in> set xs)"
| "obj_contains key (JStr s) = Inr (sublist key s)"
| "obj_contains key obj = Inl (type_error ''argument of type '' obj '' is not iterable'')"

text \<open>\<open>obj[key]\<close> for a \<open>str\<close> key.\<close>

fun obj_getitem :: "pyobj \<Rightarrow> string \<Rightarrow> pyexn + pyobj" where
  "obj_getitem (JDict kvs) key = getitem key (map_of kvs (asc key))"
| "obj_getitem (JList xs) key =
     Inl (PyExn TypeError (asc ''list indices must be integers or slices, not str''))"
| "obj_getitem (JStr s) key =
     Inl (type_error ''string indices must be integers, not '' (JStr s) [])"
| "obj_getitem obj key = Inl (type_error [] obj '' object is not subscriptable'')"

text \<open>\<open>len(obj)\<close>.\<close>

fun obj_len :: "pyobj \<Rightarrow> pyexn + nat" where
  "obj_len (JDict kvs) = Inr (length (remdups (map fst kvs)))"
| "obj_len (JList xs) = Inr (length xs)"
| "obj_len (JStr s) = Inr (length s)"
| "obj_len obj = Inl (type_error ''object of type '' obj '' has no len()'')"

text \<open>\<open>obj[0]\<close>; the keys of a decoded JSON object are strings, never \<open>0\<close>.\<close>

fun obj_first :: "pyobj \<Rightarrow> pyexn + pyobj" where
  "obj_first (JDict kvs) = Inl (PyExn KeyError (asc ''0''))"
| "obj_first (JList []) = Inl (PyExn IndexError (asc ''list index out of range''))"
| "obj_first (JList (x # xs)) = Inr x"
| "obj_first (JStr []) = Inl (PyExn IndexError (asc ''string index out of range''))"
| "obj_first (JStr (c # cs)) = Inr (JStr [c])"
| "obj_first obj = Inl (type_error [] obj '' object is not subscriptable'')"

text \<open>What \<open>requests.post\<close> returns: the status, the body as text, and what
  \<open>response.json()\<close> yields, an object or an exception.\<close>

record response =
  status_code :: int
  body_text :: ustring
  json :: "pyexn + pyobj"

definition nl :: ustring where
  "nl = [10]"

text \<open>The prompt, lines 158-166. The f-string formats its fields from left to right.\<close>

definition build_prompt :: "builtins \<Rightarrow> stock_data \<Rightarrow> pyexn + ustring" where
  "build_prompt lib sd =
     bind_exn (getitem ''info'' (info sd)) (\<lambda>i.
     bind_exn (py_format_comma lib (info_get i ''marketCap'' NA)) (\<lambda>market_cap.
     bind_exn (py_format_comma lib (info_get i ''volume'' NA)) (\<lambda>volume.
       Inr (asc ''Analyze the following stock data and provide a very concise 3-4 sentence summary:''
            @ nl @ asc ''    Current Price: $'' @ py_str lib (info_get i ''currentPrice'' NA)
            @ nl @ asc ''    Market Cap: $'' @ market_cap
            @ nl @ asc ''    P/E Ratio: '' @ py_str lib (info_get i ''trailingPE'' NA)
            @ nl @ asc ''    52-Week High: $'' @ py_str lib (info_get i ''fiftyTwoWeekHigh'' NA)
            @ nl @ asc ''    52-Week Low: $'' @ py_str lib (info_get i ''fiftyTwoWeekLow'' NA)
            @ nl @ asc ''    Volume: '' @ volume
            @ nl @ asc ''    ''
            @ nl @ asc ''    Focus on: 1) Current position vs 52-week range, 2) Key valuation insight from P/E ratio, 3) Brief outlook. Use plain text without markdown formatting.''))))"

text \<open>The body of the \<open>try\<close> block, lines 169-209; \<open>post prompt\<close> is the outcome of
  the request that carries the prompt.\<close>

definition has_choices :: "pyobj \<Rightarrow> pyexn + bool" where
  "has_choices response_json =
     bind_exn (obj_contains (asc ''choices'') response_json) (\<lambda>present.
       if present
       then bind_exn (obj_getitem response_json ''choices'') (\<lambda>choices.
            bind_exn (obj_len choices) (\<lambda>n. Inr (0 < n)))
       else Inr False)"

definition analysis_try :: "(ustring \<Rightarrow> pyexn + response) \<Rightarrow> ustring \<Rightarrow> pyexn + pyobj" where
  "analysis_try post prompt =
     bind_exn (post prompt) (\<lambda>resp.
       if status_code resp \<noteq> 200
       then Inr (JStr (asc ''Unable to generate analysis. Error: '' @ body_text resp))
       else bind_exn (json resp) (\<lambda>response_json.
            bind_exn (has_choices response_json) (\<lambda>ok.
              if ok
              then bind_exn (obj_getitem response_json ''choices'') (\<lambda>choices.
                   bind_exn (obj_first choices) (\<lambda>choice.
                   bind_exn (obj_getitem choice ''message'') (\<lambda>message.
                     obj_getitem message ''content'')))
              else Inr (JStr (asc ''Unable to generate analysis: Unexpected API response format'')))))"

text \<open>The three \<open>except\<close> clauses, lines 211-219, in their order.\<close>

definition analysis_except :: "pyexn \<Rightarrow> pyobj" where
  "analysis_except e =
     (if exn_class_of e = Timeout
      then JStr (asc ''Unable to generate analysis: Request timed out'')
      else if is_request_exception e
      then JStr (asc ''Unable to generate analysis: Network error - '' @ exn_str e)
      else JStr (asc ''Unable to generate analysis: '' @ exn_str e))"

definition get_perplexity_analysis ::
    "builtins \<Rightarrow> (ustring \<Rightarrow> pyexn + response) \<Rightarrow> stock_data \<Rightarrow> pyexn + pyobj" where
  "get_perplexity_analysis lib post sd =
     bind_exn (build_prompt lib sd) (\<lambda>prompt.
       try_except (analysis_try post prompt) (\<lambda>e. Inr (analysis_except e)))"

section \<open>The message formatter (\<open>format_stock_message\<close>)\<close>

text \<open>Lines 226-233, and the text that line 258 puts in the message for the result.\<close>

definition format_market_cap :: "builtins \<Rightarrow> pyval \<Rightarrow> pyexn + ustring" where
  "format_market_cap lib market_cap =
     (if is_number market_cap
      then (if num_ge market_cap 1000000000000
            then bind_exn (num_truediv market_cap 1000000000000)
                   (\<lambda>q. Inr (asc ''$'' @ float_format_2f q @ asc ''T''))
            else if num_ge market_cap 1000000000
            then bind_exn (num_truediv market_cap 1000000000)
                   (\<lambda>q. Inr (asc ''$'' @ float_format_2f q @ asc ''B''))
            else if num_ge market_cap 1000000
            then bind_exn (num_truediv market_cap 1000000)
                   (\<lambda>q. Inr (asc ''$'' @ float_format_2f q @ asc ''M''))
            else Inr (py_str lib market_cap))
      else Inr (py_str lib market_cap))"

text \<open>Lines 236-240 and 242-243.\<close>

definition format_price :: "pyval \<Rightarrow> pyexn + ustring" where
  "format_price v =
     (if is_number v then bind_exn (num_format_2f v) (\<lambda>s. Inr (asc ''$'' @ s))
      else Inr (asc ''N/A''))"

definition format_ratio :: "pyval \<Rightarrow> pyexn + ustring" where
  "format_ratio v = (if is_number v then num_format_2f v else Inr (asc ''N/A''))"

text \<open>Lines 246-251; an object that is no \<open>str\<close> has no \<open>replace\<close>.\<close>

fun clean_analysis :: "pyobj \<Rightarrow> pyexn + ustring" where
  "clean_analysis (JStr a) =
     Inr (remove_all (asc ''#'') (remove_all (asc ''_'') (remove_all (asc ''`'')
           (remove_all (asc ''*'') (remove_all (asc ''**'') a)))))"
| "clean_analysis obj = Inl (PyExn AttributeError
     (asc ([CHR 0x27] @ type_name obj @ [CHR 0x27] @ '' object has no attribute ''
           @ [CHR 0x27] @ ''replace'' @ [CHR 0x27])))"

text \<open>The message before the length check, lines 223-262.\<close>

definition compose_message :: "builtins \<Rightarrow> ustring \<Rightarrow> stock_data \<Rightarrow> pyobj \<Rightarrow> pyexn + ustring" where
  "compose_message lib symbol sd analysis =
     bind_exn (getitem ''info'' (info sd)) (\<lambda>i.
     bind_exn (format_market_cap lib (info_get i ''marketCap'' NA)) (\<lambda>market_cap.
     bind_exn (format_price (info_get i ''currentPrice'' NA)) (\<lambda>current_price.
     bind_exn (format_price (info_get i ''previousClose'' NA)) (\<lambda>prev_close.
     bind_exn (format_ratio (info_get i ''trailingPE'' NA)) (\<lambda>pe_ratio.
     bind_exn (clean_analysis analysis) (\<lambda>cleaned.
       Inr ([0x1F4CA] @ asc '' *'' @ str_upper lib symbol @ asc '' Stock Analysis*'' @ nl @ nl
            @ [0x1F4B0] @ asc '' Current Price: '' @ current_price @ nl
            @ [0x1F4C8] @ asc '' Previous Close: '' @ prev_close @ nl
            @ [0x1F4B9] @ asc '' Market Cap: '' @ market_cap @ nl
            @ [0x1F4CA] @ asc '' P/E Ratio: '' @ pe_ratio @ nl @ nl
            @ [0x1F4DD] @ asc '' *Analysis*:'' @ nl
            @ cleaned @ nl @ nl)))))))"

text \<open>Lines 265-266.\<close>

definition truncate_message :: "ustring \<Rightarrow> ustring" where
  "truncate_message message =
     (if 1000 < length message then take 997 message @ asc ''...'' else message)"

definition format_stock_message :: "builtins \<Rightarrow> ustring \<Rightarrow> stock_data \<Rightarrow> pyobj \<Rightarrow> pyexn + ustring" where
  "format_stock_message lib symbol sd analysis =
     bind_exn (compose_message lib symbol sd analysis) (\<lambda>message. Inr (truncate_message message))"

section \<open>The orchestrator (\<open>handle_stock\<close>)\<close>

text \<open>
  The calls on the chat transport. A call may raise, as \<open>chat_fault\<close> decides; the
  calls that went through are recorded in their order.
\<close>

datatype chat_call =
  ReplyText ustring | EditText ustring | ReplyPhoto chart_buf ustring | DeleteMessage

record world =
  chat :: "chat_call list"
  plt :: plt_state

record env =
  py :: builtins
  yf :: provider
  render_fault :: "history \<Rightarrow> plt_call \<Rightarrow> pyexn option"
  http_post :: "ustring \<Rightarrow> pyexn + response"
  chat_fault :: "chat_call \<Rightarrow> pyexn option"

definition chat_do :: "env \<Rightarrow> chat_call \<Rightarrow> (world, unit) prog" where
  "chat_do env c =
     (\<lambda>w. case chat_fault env c of Some e \<Rightarrow> (Inl e, w)
          | None \<Rightarrow> (Inr (), w\<lparr>chat := chat w @ [c]\<rparr>))"

definition with_plt :: "(plt_state, 'a) prog \<Rightarrow> (world, 'a) prog" where
  "with_plt m = (\<lambda>w. case m (plt w) of (r, p) \<Rightarrow> (r, w\<lparr>plt := p\<rparr>))"

text \<open>Reading a local variable that no assignment has reached.\<close>

definition read_local :: "string \<Rightarrow> 'a option \<Rightarrow> pyexn + 'a" where
  "read_local name var =
     (case var of
        None \<Rightarrow> Inl (PyExn UnboundLocalError
                  (asc (''cannot access local variable '' @ [CHR 0x27] @ name @ [CHR 0x27]
                        @ '' where it is not associated with a value'')))
      | Some v \<Rightarrow> Inr v)"

text \<open>Lines 323-324: what the fallback text starts with.\<close>

definition fallback_prefix :: "builtins \<Rightarrow> ustring \<Rightarrow> ustring" where
  "fallback_prefix lib symbol =
     [0x1F4CA] @ asc '' *'' @ str_upper lib symbol @ asc '' - Stock Analysis*'' @ nl @ nl
     @ [0x274C] @ asc '' Chart generation failed, but here's the analysis:'' @ nl @ nl"

text \<open>The handler of the inner \<open>try\<close>, lines 320-326; \<open>analysis\<close> is \<open>None\<close> when
  the exception came before line 302 had assigned the variable.\<close>

definition chart_failure_branch :: "env \<Rightarrow> ustring \<Rightarrow> stock_data \<Rightarrow> pyobj option \<Rightarrow> (world, unit) prog" where
  "chart_failure_branch env symbol sd analysis =
     prog_bind (prog_pure (bind_exn (read_local ''analysis'' analysis)
                             (format_stock_message (py env) symbol sd))) (\<lambda>message.
       chat_do env (EditText (fallback_prefix (py env) symbol @ message)))"

text \<open>The inner \<open>try\<close> statement, lines 295-326.\<close>

definition render_and_send :: "env \<Rightarrow> ustring \<Rightarrow> stock_data \<Rightarrow> (world, unit) prog" where
  "render_and_send env symbol sd =
     (\<lambda>w. case prog_bind (prog_pure (getitem ''history'' (history sd)))
                  (\<lambda>h. with_plt (generate_chart (render_fault env h) h)) w of
            (Inl e, w') \<Rightarrow> chart_failure_branch env symbol sd None w'
          | (Inr chart_buf, w') \<Rightarrow>
              (case get_perplexity_analysis (py env) (http_post env) sd of
                 Inl e \<Rightarrow> chart_failure_branch env symbol sd None w'
               | Inr analysis \<Rightarrow>
                   prog_catch
                     (prog_bind (prog_pure (format_stock_message (py env) symbol sd analysis))
                        (\<lambda>message.
                           prog_then (chat_do env (ReplyPhoto chart_buf message))
                                     (chat_do env DeleteMessage)))
                     (\<lambda>e. chart_failure_branch env symbol sd (Some analysis)) w'))"

definition fetch_error_text :: "ustring \<Rightarrow> ustring \<Rightarrow> ustring" where
  "fetch_error_text symbol error_msg =
     [0x274C] @ asc '' Error: Unable to fetch data for '' @ symbol @ asc ''. Error: '' @ error_msg"

definition processing_text :: "ustring \<Rightarrow> ustring" where
  "processing_text symbol = [0x1F504] @ asc '' Processing '' @ symbol @ asc ''... Please wait.''"

definition generic_error_text :: "ustring \<Rightarrow> pyexn \<Rightarrow> ustring" where
  "generic_error_text symbol e =
     [0x274C] @ asc '' Error processing '' @ symbol @ asc '': '' @ exn_str e @ nl
     @ asc ''Please try again later.''"

text \<open>The body of the outer \<open>try\<close>, lines 280-326.\<close>

definition handle_stock_try :: "env \<Rightarrow> ustring \<Rightarrow> (world, unit) prog" where
  "handle_stock_try env symbol =
     prog_bind (prog_pure (get_stock_data (yf env) symbol)) (\<lambda>sd.
     prog_bind (prog_pure (getitem ''success'' (success sd))) (\<lambda>ok.
       if \<not> ok
       then chat_do env (EditText (fetch_error_text symbol
              (case error sd of None \<Rightarrow> asc ''Unknown error'' | Some error_msg \<Rightarrow> error_msg)))
       else render_and_send env symbol sd))"

text \<open>\<open>handle_stock\<close> on a message with the text \<open>text\<close>.\<close>

definition handle_stock :: "env \<Rightarrow> ustring \<Rightarrow> (world, unit) prog" where
  "handle_stock env text =
     (let symbol = str_upper (py env) (str_strip (py env) text)
      in prog_then (chat_do env (ReplyText (processing_text symbol)))
           (prog_catch (handle_stock_try env symbol)
              (\<lambda>e. chat_do env (EditText (generic_error_text symbol e)))))"

section \<open>Sample inputs\<close>

text \<open>
  The builtins on ASCII text, where \<open>upper\<close> changes the letters \<open>a\<close> to \<open>z\<close> and
  \<open>strip\<close> removes blanks, tabs and line ends at both ends; the \<open>repr\<close> of a float
  is given on the two floats of the sample quote, \<open>189.84\<close> and \<open>7.5\<close>.
\<close>

definition ascii_upper :: "ustring \<Rightarrow> ustring" where
  "ascii_upper s = map (\<lambda>c. if 97 \<le> c \<and> c \<le> 122 then c - 32 else c) s"

definition ascii_strip :: "ustring \<Rightarrow> ustring" where
  "ascii_strip s =
     rev (dropWhile (\<lambda>c. c \<in> {9, 10, 13, 32}) (rev (dropWhile (\<lambda>c. c \<in> {9, 10, 13, 32}) s)))"

definition sample_float_repr :: "pyfloat \<Rightarrow> ustring" where
  "sample_float_repr x =
     (if x = Finite 6679401197343867 (- 45) then asc ''189.84''
      else if x = Finite 15 (- 1) then asc ''7.5'' else asc ''nan'')"

definition sample_builtins :: builtins where
  "sample_builtins =
     \<lparr>str_upper = ascii_upper, str_strip = ascii_strip,
      float_repr = sample_float_repr, float_comma = sample_float_repr\<rparr>"

text \<open>A quote of \<open>AAPL\<close>, the same quote without a market capitalisation, and with
  \<open>None\<close> for it.\<close>

definition sample_info :: info where
  "sample_info =
     [(asc ''regularMarketPrice'', PFloat (Finite 6679401197343867 (- 45))),
      (asc ''currentPrice'', PFloat (Finite 6679401197343867 (- 45))),
      (asc ''previousClose'', PInt 188),
      (asc ''marketCap'', PInt 2500000000000),
      (asc ''trailingPE'', PFloat (Finite 15 (- 1))),
      (asc ''fiftyTwoWeekHigh'', PInt 199),
      (asc ''fiftyTwoWeekLow'', PInt 124),
      (asc ''volume'', PInt 1234567)]"

definition info_without_market_cap :: info where
  "info_without_market_cap = filter (\<lambda>kv. fst kv \<noteq> asc ''marketCap'') sample_info"

definition info_with_null_market_cap :: info where
  "info_with_null_market_cap =
     map (\<lambda>kv. if fst kv = asc ''marketCap'' then (fst kv, PNone) else kv) sample_info"

definition sample_history :: history where
  "sample_history = [(1, Finite 188 0), (2, Finite 6679401197343867 (- 45))]"

definition sample_data :: "info \<Rightarrow> stock_data" where
  "sample_data i = empty_dict\<lparr>info := Some i, history := Some sample_history, success := Some True\<rparr>"

text \<open>A provider that knows every symbol, one that knows none, and one that is down.\<close>

definition sample_provider :: provider where
  "sample_provider =
     \<lparr>ticker_info = (\<lambda>symbol. Inr sample_info),
      ticker_history = (\<lambda>symbol. Inr sample_history)\<rparr>"

definition empty_provider :: provider where
  "empty_provider =
     \<lparr>ticker_info = (\<lambda>symbol. Inr []), ticker_history = (\<lambda>symbol. Inr [])\<rparr>"

definition connection_error :: pyexn where
  "connection_error = PyExn OtherException (asc ''Connection refused'')"

definition failing_provider :: provider where
  "failing_provider =
     \<lparr>ticker_info = (\<lambda>symbol. Inl connection_error),
      ticker_history = (\<lambda>symbol. Inl connection_error)\<rparr>"

definition history_failing_provider :: provider where
  "history_failing_provider =
     \<lparr>ticker_info = (\<lambda>symbol. Inr sample_info),
      ticker_history = (\<lambda>symbol. Inl connection_error)\<rparr>"

text \<open>An answer of the analysis provider.\<close>

definition sample_response :: response where
  "sample_response =
     \<lparr>status_code = 200, body_text = [],
      json = Inr (JDict [(asc ''choices'',
               JList [JDict [(asc ''message'',
                        JDict [(asc ''content'', JStr (asc ''**Strong** results.''))])]])])\<rparr>"

definition sample_post :: "ustring \<Rightarrow> pyexn + response" where
  "sample_post prompt = Inr sample_response"

definition timeout_post :: "ustring \<Rightarrow> pyexn + response" where
  "timeout_post prompt = Inl (PyExn Timeout (asc ''Read timed out.''))"

text \<open>No call fails; plotting fails, as on a frame without the column \<open>Close\<close>;
  sending the photo fails.\<close>

definition no_fault :: "'c \<Rightarrow> pyexn option" where
  "no_fault c = None"

definition missing_column :: pyexn where
  "missing_column = PyExn KeyError (asc ([CHR 0x27] @ ''Close'' @ [CHR 0x27]))"

definition plot_fault :: "plt_call \<Rightarrow> pyexn option" where
  "plot_fault c = (if c = Plot then Some missing_column else None)"

fun photo_fault :: "chat_call \<Rightarrow> pyexn option" where
  "photo_fault (ReplyPhoto photo caption) = Some (PyExn OtherException (asc ''Timed out''))"
| "photo_fault c = None"

definition sample_env :: env where
  "sample_env =
     \<lparr>py = sample_builtins, yf = sample_provider, render_fault = (\<lambda>h. no_fault),
      http_post = sample_post, chat_fault = no_fault\<rparr>"

definition plot_fault_env :: env where
  "plot_fault_env = sample_env\<lparr>render_fault := (\<lambda>h. plot_fault)\<rparr>"

definition photo_fault_env :: env where
  "photo_fault_env = sample_env\<lparr>chat_fault := photo_fault\<rparr>"

definition start_world :: world where
  "start_world = \<lparr>chat = [], plt = \<lparr>figures = []\<rparr>\<rparr>"

definition long_analysis :: pyobj where
  "long_analysis = JStr (replicate 1200 97)"

section \<open>Facts about strings and results\<close>

lemma length_asc [simp]: "length (asc s) = length s"
  by (simp add: asc_def)

lemma asc_append: "asc (a @ b) = asc a @ asc b"
  by (simp add: asc_def)

lemma asc_eq_iff [simp]: "asc a = asc b \<longleftrightarrow> a = b"
  by (simp add: asc_def inj_map_eq_map inj_of_char)

lemma endswith_suffix: "endswith s suf \<longleftrightarrow> suffix suf s"
proof
  assume "endswith s suf"
  then have "s = take (length s - length suf) s @ suf"
    by (metis append_take_drop_id endswith_def)
  then show "suffix suf s"
    by (metis suffixI)
next
  assume "suffix suf s"
  then obtain p where "s = p @ suf"
    by (auto simp: suffix_def)
  then show "endswith s suf"
    by (simp add: endswith_def)
qed

lemma bind_exn_Inr_iff: "bind_exn m f = Inr y \<longleftrightarrow> (\<exists>x. m = Inr x \<and> f x = Inr y)"
  by (cases m) auto

section \<open>Symbol resolution\<close>

lemma allow_list_no_suffix:
  "token \<in> set allow_list \<Longrightarrow> \<not> endswith token (asc ''.NS'') \<and> \<not> endswith token (asc ''.BO'')"
  by (auto simp: allow_list_def endswith_def asc_def)

text \<open>
  C5. Symbol resolution is a total function without effects: a token that ends in
  \<open>.NS\<close> or \<open>.BO\<close> is returned as it is, a token of the allow-list (RELIANCE, TCS,
  HDFCBANK, INFY, SBIN, TATAMOTORS, WIPRO) gets \<open>.NS\<close> appended, and every other
  token is returned as it is.
\<close>

theorem resolve_symbol_rule:
  "(endswith token (asc ''.NS'') \<or> endswith token (asc ''.BO'') \<longrightarrow> resolve_symbol token = token) \<and>
   (token \<in> {asc ''RELIANCE'', asc ''TCS'', asc ''HDFCBANK'', asc ''INFY'', asc ''SBIN'',
              asc ''TATAMOTORS'', asc ''WIPRO''} \<longrightarrow> resolve_symbol token = token @ asc ''.NS'') \<and>
   (\<not> endswith token (asc ''.NS'') \<and> \<not> endswith token (asc ''.BO'') \<and>
    token \<notin> {asc ''RELIANCE'', asc ''TCS'', asc ''HDFCBANK'', asc ''INFY'', asc ''SBIN'',
              asc ''TATAMOTORS'', asc ''WIPRO''} \<longrightarrow> resolve_symbol token = token)"
proof -
  have list: "set allow_list = {asc ''RELIANCE'', asc ''TCS'', asc ''HDFCBANK'', asc ''INFY'',
      asc ''SBIN'', asc ''TATAMOTORS'', asc ''WIPRO''}"
    by (simp add: allow_list_def)
  show ?thesis
    unfolding list [symmetric] using allow_list_no_suffix [of token]
    by (simp add: resolve_symbol_def)
qed

theorem resolve_symbol_rule_witness:
  "endswith (asc ''INFY.BO'') (asc ''.BO'') \<and> resolve_symbol (asc ''INFY.BO'') = asc ''INFY.BO'' \<and>
   resolve_symbol (asc ''RELIANCE'') = asc ''RELIANCE.NS'' \<and>
   \<not> endswith (asc ''AAPL'') (asc ''.NS'') \<and> \<not> endswith (asc ''AAPL'') (asc ''.BO'') \<and>
   resolve_symbol (asc ''AAPL'') = asc ''AAPL''"
  using resolve_symbol_rule [of "asc ''INFY.BO''"] resolve_symbol_rule [of "asc ''RELIANCE''"]
    resolve_symbol_rule [of "asc ''AAPL''"]
  by (simp add: endswith_def asc_def)

section \<open>The market data client\<close>

lemma get_stock_data_cases:
  "get_stock_data p token =
     (case ticker_info p (resolve_symbol token) of
        Inl e \<Rightarrow> Inr (failure (exn_str e))
      | Inr i \<Rightarrow>
          if i = [] \<or> map_of i (asc ''regularMarketPrice'') = None
          then Inr (failure (if token = resolve_symbol token
                             then no_data_hint (resolve_symbol token) else no_data_plain))
          else (case ticker_history p (resolve_symbol token) of
                  Inl e \<Rightarrow> Inr (failure (exn_str e))
                | Inr h \<Rightarrow>
                    if h = [] then Inr (failure (asc ''No historical data available''))
                    else Inr (empty_dict\<lparr>info := Some i, history := Some h,
                                          success := Some True\<rparr>)))"
  by (simp add: get_stock_data_def get_stock_data_try_def try_except_def Let_def
      split: sum.splits)

text \<open>
  C7. \<open>get_stock_data\<close> never raises: for every provider and every symbol it
  returns a dictionary, and an exception of the metadata lookup or of the history
  lookup is turned into the failure result: \<open>'success'\<close> is \<open>False\<close>,
  \<open>'error'\<close> is \<open>str(e)\<close> of that exception, and there are no other keys.
\<close>

theorem get_stock_data_never_raises:
  "(\<exists>d. get_stock_data p token = Inr d) \<and>
   (ticker_info p (resolve_symbol token) = Inl e \<longrightarrow>
      get_stock_data p token =
        Inr \<lparr>success = Some False, error = Some (exn_str e), info = None, history = None\<rparr>) \<and>
   (ticker_info p (resolve_symbol token) = Inr i \<and>
    map_of i (asc ''regularMarketPrice'') \<noteq> None \<and>
    ticker_history p (resolve_symbol token) = Inl e \<longrightarrow>
      get_stock_data p token =
        Inr \<lparr>success = Some False, error = Some (exn_str e), info = None, history = None\<rparr>)"
  by (auto simp: get_stock_data_cases failure_def empty_dict_def split: sum.splits)

theorem get_stock_data_never_raises_witness:
  "ticker_info failing_provider (resolve_symbol (asc ''AAPL'')) = Inl connection_error \<and>
   exn_str connection_error = asc ''Connection refused'' \<and>
   get_stock_data failing_provider (asc ''AAPL'') =
     Inr \<lparr>success = Some False, error = Some (asc ''Connection refused''),
          info = None, history = None\<rparr> \<and>
   ticker_info history_failing_provider (resolve_symbol (asc ''AAPL'')) = Inr sample_info \<and>
   map_of sample_info (asc ''regularMarketPrice'') \<noteq> None \<and>
   ticker_history history_failing_provider (resolve_symbol (asc ''AAPL'')) = Inl connection_error \<and>
   get_stock_data history_failing_provider (asc ''AAPL'') =
     Inr \<lparr>success = Some False, error = Some (asc ''Connection refused''),
          info = None, history = None\<rparr>"
  using get_stock_data_never_raises [where p = failing_provider and token = "asc ''AAPL''"
      and e = connection_error]
    get_stock_data_never_raises [where p = history_failing_provider and token = "asc ''AAPL''"
      and i = sample_info and e = connection_error]
  by (simp add: failing_provider_def history_failing_provider_def connection_error_def
      sample_info_def)

text \<open>
  C9. Every value that \<open>get_stock_data\<close> returns has the key \<open>'success'\<close>;
  with \<open>False\<close> under it the dictionary has an \<open>'error'\<close> string, and with
  \<open>True\<close> under it the dictionary has an \<open>'info'\<close> entry and a non-empty
  \<open>'history'\<close> entry.
\<close>

theorem get_stock_data_shape:
  "\<exists>d. get_stock_data p token = Inr d \<and>
       (\<exists>b. success d = Some b) \<and>
       (success d = Some False \<longrightarrow> (\<exists>msg. error d = Some msg)) \<and>
       (success d = Some True \<longrightarrow>
          (\<exists>i. info d = Some i) \<and> (\<exists>h. history d = Some h \<and> h \<noteq> []))"
  by (auto simp: get_stock_data_cases failure_def empty_dict_def split: sum.splits)

theorem get_stock_data_shape_witness:
  "get_stock_data sample_provider (asc ''AAPL'') = Inr (sample_data sample_info) \<and>
   success (sample_data sample_info) = Some True \<and>
   info (sample_data sample_info) = Some sample_info \<and>
   history (sample_data sample_info) = Some sample_history \<and> sample_history \<noteq> [] \<and>
   get_stock_data empty_provider (asc ''AAPL'') = Inr (failure (no_data_hint (asc ''AAPL''))) \<and>
   success (failure (no_data_hint (asc ''AAPL''))) = Some False \<and>
   error (failure (no_data_hint (asc ''AAPL''))) = Some (no_data_hint (asc ''AAPL''))"
  using get_stock_data_shape [of sample_provider "asc ''AAPL''"]
    get_stock_data_shape [of empty_provider "asc ''AAPL''"]
  by (simp add: get_stock_data_cases sample_provider_def empty_provider_def sample_data_def
      failure_def empty_dict_def sample_info_def sample_history_def resolve_symbol_def
      endswith_def allow_list_def asc_def)






section \<open>The chart renderer\<close>

lemmas prog_defs = prog_pure_def prog_bind_def prog_then_def prog_catch_def

lemmas effect_defs = plt_do_def no_effect_def clf_effect_def figure_effect_def close_effect_def

lemma plt_calls_state: "snd (plt_calls fault cs s) = s"
  by (induction cs) (auto simp: prog_defs effect_defs split: option.splits sum.splits prod.splits)

lemma plt_calls_Inl:
  "fst (plt_calls fault cs s) = Inl e \<Longrightarrow> \<exists>c\<in>set cs. fault c = Some e"
  by (induction cs) (auto simp: prog_defs effect_defs split: option.splits sum.splits prod.splits)

lemma plt_calls_ok: "\<forall>c\<in>set cs. fault c = None \<Longrightarrow> plt_calls fault cs s = (Inr (), s)"
  by (induction cs) (auto simp: prog_defs effect_defs)

lemma generate_chart_try_opened:
  assumes "fault UseAgg = None" "fault Clf = None" "fault NewFigure = None"
  shows "generate_chart_try fault hist s =
           (case figure_effect (snd (clf_effect s)) of (fig, s2) \<Rightarrow>
              (case fst (plt_calls fault [AddSubplot, Plot, SetTitle, SetXlabel, SetYlabel, Grid,
                                           Xticks, TightLayout, Savefig, Seek] s2) of
                 Inl e \<Rightarrow> (Inl e, s2)
               | Inr u \<Rightarrow> (case fault CloseFig of Some e \<Rightarrow> (Inl e, s2)
                           | None \<Rightarrow> (Inr (ChartBuf hist), snd (close_effect fig s2)))))"
proof -
  obtain fig s2 where f: "figure_effect (snd (clf_effect s)) = (fig, s2)"
    by (cases "figure_effect (snd (clf_effect s))")
  let ?cs = "[AddSubplot, Plot, SetTitle, SetXlabel, SetYlabel, Grid, Xticks, TightLayout,
              Savefig, Seek]"
  obtain r where r: "plt_calls fault ?cs s2 = (r, s2)"
    using plt_calls_state [of fault ?cs s2] by (cases "plt_calls fault ?cs s2") auto
  have "generate_chart_try fault hist s =
      prog_then (plt_calls fault ?cs)
        (prog_then (plt_do fault CloseFig (close_effect fig)) (prog_pure (Inr (ChartBuf hist)))) s2"
    using assms f
    by (simp add: generate_chart_try_def prog_defs plt_do_def no_effect_def clf_effect_def)
  also have "\<dots> = (case r of Inl e \<Rightarrow> (Inl e, s2)
      | Inr u \<Rightarrow> (case fault CloseFig of Some e \<Rightarrow> (Inl e, s2)
                  | None \<Rightarrow> (Inr (ChartBuf hist), snd (close_effect fig s2))))"
    using r by (simp add: prog_defs plt_do_def close_effect_def split: sum.splits option.splits)
  finally show ?thesis
    using f r by simp
qed

lemma created_figure_opened:
  assumes "fault UseAgg = None" "fault Clf = None" "fault NewFigure = None"
  shows "created_figure fault s = Some (fst (figure_effect (snd (clf_effect s))))"
  using assms
  by (simp add: created_figure_def prog_defs plt_do_def no_effect_def clf_effect_def
      split: prod.splits)

lemma fold_max_ge_start: "(a::nat) \<le> fold max xs a"
proof (induction xs arbitrary: a)
  case Nil
  show ?case by simp
next
  case (Cons x xs)
  have "a \<le> max x a" by simp
  also have "\<dots> \<le> fold max xs (max x a)" by (rule Cons.IH)
  finally show ?case by simp
qed

lemma fold_max_ge_member: "n \<in> set xs \<Longrightarrow> (n::nat) \<le> fold max xs a"
proof (induction xs arbitrary: a)
  case Nil
  then show ?case by simp
next
  case (Cons x xs)
  show ?case
  proof (cases "n = x")
    case True
    have "n \<le> max x a" using True by simp
    also have "\<dots> \<le> fold max xs (max x a)" by (rule fold_max_ge_start)
    finally show ?thesis by simp
  next
    case False
    then have "n \<in> set xs" using Cons.prems by simp
    then show ?thesis using Cons.IH by simp
  qed
qed

lemma figure_effect_opens:
  assumes "figure_effect s = (fig, s2)"
  shows "fig \<in> set (figures s2) \<and> fig \<notin> set (figures s)"
proof -
  have "Suc (fold max (figures s) 0) \<notin> set (figures s)"
    using fold_max_ge_member [of "Suc (fold max (figures s) 0)" "figures s" 0] by auto
  then show ?thesis
    using assms by (auto simp: figure_effect_def Let_def)
qed

lemma generate_chart_success:
  assumes "\<And>c. fault c = None"
  shows "\<exists>fig s'. created_figure fault s = Some fig \<and>
           generate_chart fault hist s = (Inr (ChartBuf hist), s') \<and> fig \<notin> set (figures s')"
proof -
  obtain fig s2 where f: "figure_effect (snd (clf_effect s)) = (fig, s2)"
    by (cases "figure_effect (snd (clf_effect s))")
  have "generate_chart_try fault hist s = (Inr (ChartBuf hist), snd (close_effect fig s2))"
    using assms f by (simp add: generate_chart_try_opened plt_calls_ok del: plt_calls.simps)
  then have "generate_chart fault hist s = (Inr (ChartBuf hist), snd (close_effect fig s2))"
    by (simp add: generate_chart_def prog_defs)
  moreover have "fig \<notin> set (figures (snd (close_effect fig s2)))"
    by (simp add: close_effect_def)
  moreover have "created_figure fault s = Some fig"
    using assms f by (simp add: created_figure_opened)
  ultimately show ?thesis
    by blast
qed

lemma generate_chart_failure:
  assumes "fault UseAgg = None" "fault Clf = None" "fault NewFigure = None"
    and "fst (generate_chart fault hist s) = Inl err"
  shows "\<exists>fig s' c e. created_figure fault s = Some fig \<and> fault c = Some e \<and>
           generate_chart fault hist s =
             (Inl (PyExn OtherException (asc ''Failed to generate chart: '' @ exn_str e)), s') \<and>
           fig \<in> set (figures s')"
proof -
  obtain fig s2 where f: "figure_effect (snd (clf_effect s)) = (fig, s2)"
    by (cases "figure_effect (snd (clf_effect s))")
  let ?cs = "[AddSubplot, Plot, SetTitle, SetXlabel, SetYlabel, Grid, Xticks, TightLayout,
              Savefig, Seek]"
  have fig: "created_figure fault s = Some fig" "fig \<in> set (figures s2)"
    using assms(1-3) f figure_effect_opens [OF f] by (simp_all add: created_figure_opened)
  have body: "generate_chart_try fault hist s =
      (case fst (plt_calls fault ?cs s2) of
         Inl e \<Rightarrow> (Inl e, s2)
       | Inr u \<Rightarrow> (case fault CloseFig of Some e \<Rightarrow> (Inl e, s2)
                   | None \<Rightarrow> (Inr (ChartBuf hist), snd (close_effect fig s2))))"
    using assms(1-3) f by (simp add: generate_chart_try_opened)
  show ?thesis
  proof (cases "fst (plt_calls fault ?cs s2)")
    case (Inl e)
    then obtain c where "fault c = Some e"
      using plt_calls_Inl by blast
    moreover have "generate_chart fault hist s =
        (Inl (PyExn OtherException (asc ''Failed to generate chart: '' @ exn_str e)), s2)"
      using body Inl by (simp add: generate_chart_def prog_defs)
    ultimately show ?thesis
      using fig by blast
  next
    case (Inr u)
    show ?thesis
    proof (cases "fault CloseFig")
      case None
      then have "fst (generate_chart fault hist s) = Inr (ChartBuf hist)"
        using body Inr by (simp add: generate_chart_def prog_defs)
      then show ?thesis
        using assms(4) by simp
    next
      case (Some e)
      then have "generate_chart fault hist s =
          (Inl (PyExn OtherException (asc ''Failed to generate chart: '' @ exn_str e)), s2)"
        using body Inr by (simp add: generate_chart_def prog_defs)
      then show ?thesis
        using fig Some by blast
    qed
  qed
qed

text \<open>
  C8. \<open>generate_chart\<close> is to release the figure it created on every exit path.
  The re-raised exception does carry the message of the cause, but \<open>plt.close(fig)\<close>
  is reached on the path of success only: when plotting raises on an empty figure
  registry, the figure number 2 that the call created is still open afterwards
  (beside the figure 1 that \<open>plt.clf()\<close> opened).
\<close>

theorem generate_chart_keeps_figure_on_failure:
  "generate_chart plot_fault sample_history \<lparr>figures = []\<rparr> =
     (Inl (PyExn OtherException (asc ''Failed to generate chart: '' @ exn_str missing_column)),
      \<lparr>figures = [1, 2]\<rparr>) \<and>
   created_figure plot_fault \<lparr>figures = []\<rparr> = Some 2"
  by (simp add: generate_chart_def generate_chart_try_opened created_figure_opened prog_defs
      effect_defs Let_def plot_fault_def)

section \<open>The message formatter\<close>

lemma truncate_length: "length (truncate_message u) \<le> 1000"
  by (simp add: truncate_message_def)

lemma truncate_long:
  assumes "1000 < length u"
  shows "truncate_message u = take 997 u @ asc ''...''" "length (truncate_message u) = 1000"
    "endswith (truncate_message u) (asc ''...'')"
  using assms by (simp_all add: truncate_message_def endswith_def)

lemma format_stock_message_Inr:
  "format_stock_message lib symbol sd analysis = Inr m \<longleftrightarrow>
     (\<exists>u. compose_message lib symbol sd analysis = Inr u \<and> m = truncate_message u)"
  by (auto simp: format_stock_message_def bind_exn_Inr_iff)

text \<open>
  C3. A message that \<open>format_stock_message\<close> returns has at most 1000 characters;
  when the composed message has more than 1000, the returned one has exactly 1000 and
  ends with \<open>...\<close>: it is the first 997 characters and the marker.
\<close>

theorem format_stock_message_length:
  "format_stock_message lib symbol sd analysis = Inr m \<longrightarrow>
     length m \<le> 1000 \<and>
     (\<exists>u. compose_message lib symbol sd analysis = Inr u \<and>
          (1000 < length u \<longrightarrow>
             length m = 1000 \<and> endswith m (asc ''...'') \<and> m = take 997 u @ asc ''...'') \<and>
          (length u \<le> 1000 \<longrightarrow> m = u))"
proof
  assume "format_stock_message lib symbol sd analysis = Inr m"
  then obtain u where u: "compose_message lib symbol sd analysis = Inr u" "m = truncate_message u"
    by (auto simp: format_stock_message_Inr)
  have "length m \<le> 1000"
    using u(2) by (simp add: truncate_length)
  moreover have "1000 < length u \<longrightarrow>
      length m = 1000 \<and> endswith m (asc ''...'') \<and> m = take 997 u @ asc ''...''"
    using u(2) truncate_long [of u] by simp
  moreover have "length u \<le> 1000 \<longrightarrow> m = u"
    using u(2) by (simp add: truncate_message_def)
  ultimately show "length m \<le> 1000 \<and>
     (\<exists>u. compose_message lib symbol sd analysis = Inr u \<and>
          (1000 < length u \<longrightarrow>
             length m = 1000 \<and> endswith m (asc ''...'') \<and> m = take 997 u @ asc ''...'') \<and>
          (length u \<le> 1000 \<longrightarrow> m = u))"
    using u(1) by blast
qed

lemma remove_all_absent: "x \<notin> set s \<Longrightarrow> remove_all (x # xs) s = s"
  by (induction s) auto

lemmas number_defs = int_truediv_def int_to_float_def mk_float_def nearest_double_def
  div_rhe_def fixed2_def Let_def

lemmas format_defs = format_market_cap_def format_price_def format_ratio_def info_get_def
  getitem_def NA_def

lemma sample_fields:
  "format_market_cap lib (PInt 2500000000000) = Inr (asc ''$2.50T'')"
  "format_price (PFloat (Finite 6679401197343867 (- 45))) = Inr (asc ''$189.84'')"
  "format_price (PInt 188) = Inr (asc ''$188.00'')"
  "format_ratio (PFloat (Finite 15 (- 1))) = Inr (asc ''7.50'')"
  by (simp_all add: format_defs number_defs asc_def)

lemma compose_sample:
  "compose_message lib symbol (sample_data sample_info) (JStr a) =
     Inr ([0x1F4CA] @ asc '' *'' @ str_upper lib symbol @ asc '' Stock Analysis*'' @ nl @ nl
          @ [0x1F4B0] @ asc '' Current Price: $189.84'' @ nl
          @ [0x1F4C8] @ asc '' Previous Close: $188.00'' @ nl
          @ [0x1F4B9] @ asc '' Market Cap: $2.50T'' @ nl
          @ [0x1F4CA] @ asc '' P/E Ratio: 7.50'' @ nl @ nl
          @ [0x1F4DD] @ asc '' *Analysis*:'' @ nl
          @ remove_all (asc ''#'') (remove_all (asc ''_'') (remove_all (asc ''`'')
              (remove_all (asc ''*'') (remove_all (asc ''**'') a)))) @ nl @ nl)"
proof -
  have fields:
    "info_get sample_info ''marketCap'' NA = PInt 2500000000000"
    "info_get sample_info ''currentPrice'' NA = PFloat (Finite 6679401197343867 (- 45))"
    "info_get sample_info ''previousClose'' NA = PInt 188"
    "info_get sample_info ''trailingPE'' NA = PFloat (Finite 15 (- 1))"
    by (simp_all add: info_get_def sample_info_def)
  show ?thesis
    by (simp add: compose_message_def sample_data_def empty_dict_def getitem_def fields
        sample_fields) (simp add: asc_def)
qed

theorem format_stock_message_length_witness:
  "format_stock_message sample_builtins (asc ''AAPL'') (sample_data sample_info) long_analysis =
     Inr ([0x1F4CA] @ asc '' *AAPL Stock Analysis*'' @ nl @ nl
          @ [0x1F4B0] @ asc '' Current Price: $189.84'' @ nl
          @ [0x1F4C8] @ asc '' Previous Close: $188.00'' @ nl
          @ [0x1F4B9] @ asc '' Market Cap: $2.50T'' @ nl
          @ [0x1F4CA] @ asc '' P/E Ratio: 7.50'' @ nl @ nl
          @ [0x1F4DD] @ asc '' *Analysis*:'' @ nl @ replicate 867 97 @ asc ''...'') \<and>
   compose_message sample_builtins (asc ''AAPL'') (sample_data sample_info) long_analysis =
     Inr ([0x1F4CA] @ asc '' *AAPL Stock Analysis*'' @ nl @ nl
          @ [0x1F4B0] @ asc '' Current Price: $189.84'' @ nl
          @ [0x1F4C8] @ asc '' Previous Close: $188.00'' @ nl
          @ [0x1F4B9] @ asc '' Market Cap: $2.50T'' @ nl
          @ [0x1F4CA] @ asc '' P/E Ratio: 7.50'' @ nl @ nl
          @ [0x1F4DD] @ asc '' *Analysis*:'' @ nl @ replicate 1200 97 @ nl @ nl) \<and>
   length ([0x1F4CA] @ asc '' *AAPL Stock Analysis*'' @ nl @ nl
          @ [0x1F4B0] @ asc '' Current Price: $189.84'' @ nl
          @ [0x1F4C8] @ asc '' Previous Close: $188.00'' @ nl
          @ [0x1F4B9] @ asc '' Market Cap: $2.50T'' @ nl
          @ [0x1F4CA] @ asc '' P/E Ratio: 7.50'' @ nl @ nl
          @ [0x1F4DD] @ asc '' *Analysis*:'' @ nl @ replicate 867 97 @ asc ''...'') = 1000"
proof -
  have clean: "remove_all (asc ''#'') (remove_all (asc ''_'') (remove_all (asc ''`'')
      (remove_all (asc ''*'') (remove_all (asc ''**'') (replicate 1200 97))))) = replicate 1200 97"
    by (simp add: asc_def remove_all_absent)
  have composed: "compose_message sample_builtins (asc ''AAPL'') (sample_data sample_info)
      long_analysis =
     Inr ([0x1F4CA] @ asc '' *AAPL Stock Analysis*'' @ nl @ nl
          @ [0x1F4B0] @ asc '' Current Price: $189.84'' @ nl
          @ [0x1F4C8] @ asc '' Previous Close: $188.00'' @ nl
          @ [0x1F4B9] @ asc '' Market Cap: $2.50T'' @ nl
          @ [0x1F4CA] @ asc '' P/E Ratio: 7.50'' @ nl @ nl
          @ [0x1F4DD] @ asc '' *Analysis*:'' @ nl @ replicate 1200 97 @ nl @ nl)"
    unfolding long_analysis_def compose_sample clean
    by (simp add: sample_builtins_def ascii_upper_def asc_def)
  have formatted: "format_stock_message sample_builtins (asc ''AAPL'') (sample_data sample_info)
      long_analysis =
     Inr ([0x1F4CA] @ asc '' *AAPL Stock Analysis*'' @ nl @ nl
          @ [0x1F4B0] @ asc '' Current Price: $189.84'' @ nl
          @ [0x1F4C8] @ asc '' Previous Close: $188.00'' @ nl
          @ [0x1F4B9] @ asc '' Market Cap: $2.50T'' @ nl
          @ [0x1F4CA] @ asc '' P/E Ratio: 7.50'' @ nl @ nl
          @ [0x1F4DD] @ asc '' *Analysis*:'' @ nl @ replicate 867 97 @ asc ''...'')"
    unfolding format_stock_message_def composed
    by (simp add: truncate_message_def nl_def)
  show ?thesis
    using format_stock_message_length [of sample_builtins "asc ''AAPL''" "sample_data sample_info"
        long_analysis] formatted composed
    by (simp add: nl_def)
qed

lemma market_cap_thresholds:
  "1000000000000 \<le> v \<Longrightarrow> format_market_cap lib (PInt v) =
     bind_exn (int_truediv v 1000000000000) (\<lambda>q. Inr (asc ''$'' @ float_format_2f q @ asc ''T''))"
  "1000000000 \<le> v \<Longrightarrow> v < 1000000000000 \<Longrightarrow> format_market_cap lib (PInt v) =
     bind_exn (int_truediv v 1000000000) (\<lambda>q. Inr (asc ''$'' @ float_format_2f q @ asc ''B''))"
  "1000000 \<le> v \<Longrightarrow> v < 1000000000 \<Longrightarrow> format_market_cap lib (PInt v) =
     bind_exn (int_truediv v 1000000) (\<lambda>q. Inr (asc ''$'' @ float_format_2f q @ asc ''M''))"
  "v < 1000000 \<Longrightarrow> format_market_cap lib (PInt v) = Inr (show_int v)"
  by (simp_all add: format_market_cap_def)

lemma market_cap_examples:
  "format_market_cap lib (PInt 2500000000000) = Inr (asc ''$2.50T'')"
  "format_market_cap lib (PInt 3400000000) = Inr (asc ''$3.40B'')"
  "format_market_cap lib (PInt 7000000) = Inr (asc ''$7.00M'')"
  by (simp_all add: format_defs number_defs asc_def)

lemma market_cap_absent:
  "map_of i (asc ''marketCap'') = None \<Longrightarrow>
     format_market_cap lib (info_get i ''marketCap'' NA) = Inr (asc ''N/A'')"
  by (simp add: format_defs)

lemma market_cap_not_a_number:
  "format_market_cap lib PNone = Inr (asc ''None'')"
  "format_market_cap lib (PStr s) = Inr s"
  "format_price PNone = Inr (asc ''N/A'')" "format_price (PStr s) = Inr (asc ''N/A'')"
  "format_ratio PNone = Inr (asc ''N/A'')" "format_ratio (PStr s) = Inr (asc ''N/A'')"
  by (simp_all add: format_defs)

text \<open>
  C4. A market capitalisation that is no number is to be rendered as \<open>N/A\<close>. The
  thresholds and the three examples hold (\<open>market_cap_thresholds\<close>,
  \<open>market_cap_examples\<close>), and so does the absent value (\<open>market_cap_absent\<close>).
  But a value that is present and is no number keeps its own text: with \<open>None\<close>
  under \<open>'marketCap'\<close> the message reads \<open>Market Cap: None\<close>, where the price
  fields beside it turn \<open>None\<close> into \<open>N/A\<close>.
\<close>

theorem market_cap_none_is_not_na:
  "info_get info_with_null_market_cap ''marketCap'' NA = PNone \<and>
   format_market_cap sample_builtins PNone = Inr (asc ''None'') \<and>
   format_price PNone = Inr (asc ''N/A'') \<and>
   format_stock_message sample_builtins (asc ''AAPL'') (sample_data info_with_null_market_cap)
       (JStr (asc ''Fine.'')) =
     Inr ([0x1F4CA] @ asc '' *AAPL Stock Analysis*'' @ nl @ nl
          @ [0x1F4B0] @ asc '' Current Price: $189.84'' @ nl
          @ [0x1F4C8] @ asc '' Previous Close: $188.00'' @ nl
          @ [0x1F4B9] @ asc '' Market Cap: None'' @ nl
          @ [0x1F4CA] @ asc '' P/E Ratio: 7.50'' @ nl @ nl
          @ [0x1F4DD] @ asc '' *Analysis*:'' @ nl @ asc ''Fine.'' @ nl @ nl)"
proof -
  have fields:
    "info_get info_with_null_market_cap ''marketCap'' NA = PNone"
    "info_get info_with_null_market_cap ''currentPrice'' NA = PFloat (Finite 6679401197343867 (- 45))"
    "info_get info_with_null_market_cap ''previousClose'' NA = PInt 188"
    "info_get info_with_null_market_cap ''trailingPE'' NA = PFloat (Finite 15 (- 1))"
    by (simp_all add: info_get_def info_with_null_market_cap_def sample_info_def)
  have "compose_message sample_builtins (asc ''AAPL'') (sample_data info_with_null_market_cap)
       (JStr (asc ''Fine.'')) =
     Inr ([0x1F4CA] @ asc '' *AAPL Stock Analysis*'' @ nl @ nl
          @ [0x1F4B0] @ asc '' Current Price: $189.84'' @ nl
          @ [0x1F4C8] @ asc '' Previous Close: $188.00'' @ nl
          @ [0x1F4B9] @ asc '' Market Cap: None'' @ nl
          @ [0x1F4CA] @ asc '' P/E Ratio: 7.50'' @ nl @ nl
          @ [0x1F4DD] @ asc '' *Analysis*:'' @ nl @ asc ''Fine.'' @ nl @ nl)"
    by (simp add: compose_message_def sample_data_def empty_dict_def getitem_def fields
        sample_fields market_cap_not_a_number sample_builtins_def ascii_upper_def)
      (simp add: asc_def)
  then show ?thesis
    by (simp add: format_stock_message_def truncate_message_def fields market_cap_not_a_number
        nl_def)
qed

lemma prompt_rejects_missing_field:
  assumes "info sd = Some i"
    and "map_of i (asc ''marketCap'') = None \<or>
         (is_number (info_get i ''marketCap'' NA) \<and> map_of i (asc ''volume'') = None)"
  shows "get_perplexity_analysis lib post sd =
           Inl (PyExn ValueError (asc ''Cannot specify ',' with 's'.''))"
proof -
  have na: "py_format_comma lib NA = Inl (PyExn ValueError (asc ''Cannot specify ',' with 's'.''))"
    by (simp add: NA_def)
  have "build_prompt lib sd = Inl (PyExn ValueError (asc ''Cannot specify ',' with 's'.''))"
  proof (cases "map_of i (asc ''marketCap'') = None")
    case True
    then show ?thesis
      using assms(1) na by (simp add: build_prompt_def getitem_def info_get_def)
  next
    case False
    then have num: "is_number (info_get i ''marketCap'' NA)"
      and vol: "info_get i ''volume'' NA = NA"
      using assms(2) by (auto simp: info_get_def)
    obtain mc where "py_format_comma lib (info_get i ''marketCap'' NA) = Inr mc"
      using num by (cases "info_get i ''marketCap'' NA") simp_all
    then show ?thesis
      using assms(1) na vol by (simp add: build_prompt_def getitem_def)
  qed
  then show ?thesis
    by (simp add: get_perplexity_analysis_def)
qed

lemma analysis_returns_when_prompt_builds:
  "build_prompt lib sd = Inr prompt \<Longrightarrow> \<exists>a. get_perplexity_analysis lib post sd = Inr a"
  by (simp add: get_perplexity_analysis_def try_except_def split: sum.splits)

lemma analysis_on_timeout:
  "build_prompt lib sd = Inr prompt \<Longrightarrow> post prompt = Inl e \<Longrightarrow> exn_class_of e = Timeout \<Longrightarrow>
     get_perplexity_analysis lib post sd =
       Inr (JStr (asc ''Unable to generate analysis: Request timed out''))"
  by (simp add: get_perplexity_analysis_def try_except_def analysis_try_def analysis_except_def)

text \<open>
  C2. \<open>get_perplexity_analysis\<close> is to return a string for every quote, also when
  a field is unavailable. After the prompt is built it does return
  (\<open>analysis_returns_when_prompt_builds\<close>), but the prompt is built before the
  \<open>try\<close>, and the format \<open>:,\<close> rejects the marker \<open>'N/A'\<close> that stands for an
  absent market capitalisation or volume: on a quote without \<open>'marketCap'\<close> the
  call raises \<open>ValueError\<close>.
\<close>

theorem analysis_raises_without_market_cap:
  "info (sample_data info_without_market_cap) = Some info_without_market_cap \<and>
   map_of info_without_market_cap (asc ''marketCap'') = None \<and>
   get_perplexity_analysis sample_builtins sample_post (sample_data info_without_market_cap) =
     Inl (PyExn ValueError (asc ''Cannot specify ',' with 's'.''))"
proof -
  have "info (sample_data info_without_market_cap) = Some info_without_market_cap"
    by (simp add: sample_data_def empty_dict_def)
  moreover have "map_of info_without_market_cap (asc ''marketCap'') = None"
    by (simp add: info_without_market_cap_def sample_info_def)
  ultimately show ?thesis
    using prompt_rejects_missing_field [of "sample_data info_without_market_cap"
        info_without_market_cap sample_builtins sample_post]
    by simp
qed

section \<open>The orchestrator\<close>

lemma plot_fault_run:
  "generate_chart plot_fault h \<lparr>figures = []\<rparr> =
     (Inl (PyExn OtherException (asc ''Failed to generate chart: '' @ exn_str missing_column)),
      \<lparr>figures = [1, 2]\<rparr>)"
  by (simp add: generate_chart_def generate_chart_try_opened prog_defs effect_defs Let_def
      plot_fault_def)

lemma no_fault_run:
  "generate_chart no_fault h \<lparr>figures = []\<rparr> = (Inr (ChartBuf h), \<lparr>figures = [1]\<rparr>)"
  by (simp add: generate_chart_def generate_chart_try_opened prog_defs effect_defs Let_def
      no_fault_def)

lemma sample_provider_run: "get_stock_data sample_provider symbol = Inr (sample_data sample_info)"
  by (simp add: get_stock_data_cases sample_provider_def sample_data_def sample_info_def
      sample_history_def)

lemma sample_data_fields:
  "success (sample_data i) = Some True" "info (sample_data i) = Some i"
  "history (sample_data i) = Some sample_history" "error (sample_data i) = None"
  by (simp_all add: sample_data_def empty_dict_def)

lemma sample_symbol: "ascii_upper (ascii_strip (asc ''aapl'')) = asc ''AAPL''"
  by (simp add: ascii_upper_def ascii_strip_def asc_def)

lemma chart_failure_branch_unbound:
  "chart_failure_branch env symbol sd None w =
     (Inl (PyExn UnboundLocalError
        (asc ''cannot access local variable 'analysis' where it is not associated with a value'')), w)"
  by (simp add: chart_failure_branch_def read_local_def prog_defs)

lemma render_and_send_chart_raises:
  assumes "history sd = Some h"
    and "generate_chart (render_fault env h) h (plt w) = (Inl e, p)"
  shows "render_and_send env symbol sd w =
     (Inl (PyExn UnboundLocalError
        (asc ''cannot access local variable 'analysis' where it is not associated with a value'')),
      w\<lparr>plt := p\<rparr>)"
  using assms
  by (simp add: render_and_send_def prog_defs with_plt_def getitem_def chart_failure_branch_unbound)

lemma handle_stock_chart_raises:
  assumes "get_stock_data (yf env) (str_upper (py env) (str_strip (py env) text)) = Inr sd"
    and "success sd = Some True" and "history sd = Some h"
    and "generate_chart (render_fault env h) h (plt w) = (Inl e, p)"
    and "chat_fault env (ReplyText (processing_text (str_upper (py env) (str_strip (py env) text)))) = None"
    and "chat_fault env (EditText (generic_error_text (str_upper (py env) (str_strip (py env) text))
           (PyExn UnboundLocalError
             (asc ''cannot access local variable 'analysis' where it is not associated with a value'')))) = None"
  shows "handle_stock env text w =
     (Inr (), \<lparr>chat = chat w @
         [ReplyText (processing_text (str_upper (py env) (str_strip (py env) text))),
          EditText (generic_error_text (str_upper (py env) (str_strip (py env) text))
           (PyExn UnboundLocalError
             (asc ''cannot access local variable 'analysis' where it is not associated with a value'')))],
       plt = p\<rparr>)"
proof -
  let ?symbol = "str_upper (py env) (str_strip (py env) text)"
  let ?w1 = "w\<lparr>chat := chat w @ [ReplyText (processing_text ?symbol)]\<rparr>"
  have "render_and_send env ?symbol sd ?w1 =
      (Inl (PyExn UnboundLocalError
        (asc ''cannot access local variable 'analysis' where it is not associated with a value'')),
       ?w1\<lparr>plt := p\<rparr>)"
    using assms(3,4) by (intro render_and_send_chart_raises) simp_all
  then have "handle_stock_try env ?symbol ?w1 =
      (Inl (PyExn UnboundLocalError
        (asc ''cannot access local variable 'analysis' where it is not associated with a value'')),
       ?w1\<lparr>plt := p\<rparr>)"
    using assms(1,2) by (simp add: handle_stock_try_def prog_defs getitem_def)
  then show ?thesis
    using assms(5,6) by (simp add: handle_stock_def Let_def prog_defs chat_do_def)
qed

text \<open>
  C1. When the fetch succeeds and rendering raises, \<open>handle_stock\<close> is to deliver
  the text-only fallback. The handler of the inner \<open>try\<close> reads \<open>analysis\<close>,
  which line 302 has not assigned yet when \<open>generate_chart\<close> raises; the read
  raises \<open>UnboundLocalError\<close>, and the outer handler edits the placeholder into the
  generic failure notice. No text with the prefix
  \<open>Chart generation failed\<close> is delivered.
\<close>

theorem chart_failure_without_analysis:
  "handle_stock plot_fault_env (asc ''aapl'') start_world =
     (Inr (), \<lparr>chat = [ReplyText (processing_text (asc ''AAPL'')),
                       EditText (generic_error_text (asc ''AAPL'')
                         (PyExn UnboundLocalError
                            (asc ''cannot access local variable 'analysis' where it is not associated with a value'')))],
               plt = \<lparr>figures = [1, 2]\<rparr>\<rparr>) \<and>
   \<not> sublist (asc ''Chart generation failed'')
       (generic_error_text (asc ''AAPL'')
          (PyExn UnboundLocalError
             (asc ''cannot access local variable 'analysis' where it is not associated with a value'')))"
proof -
  have env: "py plot_fault_env = sample_builtins" "yf plot_fault_env = sample_provider"
    "render_fault plot_fault_env = (\<lambda>h. plot_fault)" "chat_fault plot_fault_env = no_fault"
    by (simp_all add: plot_fault_env_def sample_env_def)
  have lib: "str_upper sample_builtins = ascii_upper" "str_strip sample_builtins = ascii_strip"
    by (simp_all add: sample_builtins_def)
  have "handle_stock plot_fault_env (asc ''aapl'') start_world =
     (Inr (), \<lparr>chat = chat start_world @ [ReplyText (processing_text (asc ''AAPL'')),
                       EditText (generic_error_text (asc ''AAPL'')
                         (PyExn UnboundLocalError
                            (asc ''cannot access local variable 'analysis' where it is not associated with a value'')))],
               plt = \<lparr>figures = [1, 2]\<rparr>\<rparr>)"
    using handle_stock_chart_raises [of plot_fault_env "asc ''aapl''" "sample_data sample_info"
        sample_history start_world _ "\<lparr>figures = [1, 2]\<rparr>"]
    by (simp add: env lib sample_symbol sample_provider_run sample_data_fields plot_fault_run
        start_world_def no_fault_def)
  moreover have "\<not> sublist (asc ''Chart generation failed'')
       (generic_error_text (asc ''AAPL'')
          (PyExn UnboundLocalError
             (asc ''cannot access local variable 'analysis' where it is not associated with a value'')))"
    by (simp add: generic_error_text_def asc_def nl_def sublist_code)
  ultimately show ?thesis
    by (simp add: start_world_def)
qed





lemma sample_analysis:
  "get_perplexity_analysis sample_builtins sample_post (sample_data sample_info) =
     Inr (JStr (asc ''**Strong** results.''))"
proof -
  have fields:
    "info_get sample_info ''marketCap'' NA = PInt 2500000000000"
    "info_get sample_info ''volume'' NA = PInt 1234567"
    by (simp_all add: info_get_def sample_info_def)
  obtain prompt where "build_prompt sample_builtins (sample_data sample_info) = Inr prompt"
    by (simp add: build_prompt_def sample_data_fields getitem_def fields)
  moreover have "analysis_try sample_post prompt = Inr (JStr (asc ''**Strong** results.''))"
    by (simp add: analysis_try_def sample_post_def sample_response_def has_choices_def
        getitem_def)
  ultimately show ?thesis
    by (simp add: get_perplexity_analysis_def try_except_def)
qed

lemma sample_clean:
  "remove_all (asc ''#'') (remove_all (asc ''_'') (remove_all (asc ''`'')
      (remove_all (asc ''*'') (remove_all (asc ''**'') (asc ''**Strong** results.''))))) =
   asc ''Strong results.''"
  by (simp add: asc_def)

lemma photo_fault_run:
  assumes "format_stock_message sample_builtins (ascii_upper (ascii_strip text))
             (sample_data sample_info) (JStr (asc ''**Strong** results.'')) = Inr m"
  shows "handle_stock photo_fault_env text start_world =
     (Inr (), \<lparr>chat = [ReplyText (processing_text (ascii_upper (ascii_strip text))),
                       EditText (fallback_prefix sample_builtins (ascii_upper (ascii_strip text)) @ m)],
               plt = \<lparr>figures = [1]\<rparr>\<rparr>)"
proof -
  have env: "py photo_fault_env = sample_builtins" "yf photo_fault_env = sample_provider"
    "render_fault photo_fault_env = (\<lambda>h. no_fault)" "chat_fault photo_fault_env = photo_fault"
    "http_post photo_fault_env = sample_post"
    by (simp_all add: photo_fault_env_def sample_env_def)
  have lib: "str_upper sample_builtins = ascii_upper" "str_strip sample_builtins = ascii_strip"
    by (simp_all add: sample_builtins_def)
  let ?symbol = "ascii_upper (ascii_strip text)"
  let ?w1 = "\<lparr>chat = [ReplyText (processing_text ?symbol)], plt = \<lparr>figures = []\<rparr>\<rparr>"
  have branch: "chart_failure_branch photo_fault_env ?symbol (sample_data sample_info)
        (Some (JStr (asc ''**Strong** results.''))) w =
      (Inr (), w\<lparr>chat := chat w @ [EditText (fallback_prefix sample_builtins ?symbol @ m)]\<rparr>)" for w
    using assms by (simp add: chart_failure_branch_def read_local_def prog_defs chat_do_def env)
  have "render_and_send photo_fault_env ?symbol (sample_data sample_info) ?w1 =
      (Inr (), \<lparr>chat = [ReplyText (processing_text ?symbol),
                        EditText (fallback_prefix sample_builtins ?symbol @ m)],
                plt = \<lparr>figures = [1]\<rparr>\<rparr>)"
    using assms
    by (simp add: render_and_send_def prog_defs with_plt_def getitem_def sample_data_fields env
        no_fault_run sample_analysis chat_do_def branch)
  then have "handle_stock_try photo_fault_env ?symbol ?w1 =
      (Inr (), \<lparr>chat = [ReplyText (processing_text ?symbol),
                        EditText (fallback_prefix sample_builtins ?symbol @ m)],
                plt = \<lparr>figures = [1]\<rparr>\<rparr>)"
    by (simp add: handle_stock_try_def prog_defs getitem_def env sample_provider_run
        sample_data_fields)
  then show ?thesis
    by (simp add: handle_stock_def Let_def prog_defs chat_do_def env lib start_world_def)
qed


text \<open>The runs of the samples: a failure after the analysis reaches the branch with
  \<open>analysis\<close> assigned; a timeout of the analysis provider gives its placeholder;
  the request that meets no failure sends the photo and deletes the placeholder; and
  the request whose photo cannot be sent gets the fallback text with both headers.\<close>

lemma render_and_send_late_failure:
  assumes "history sd = Some h"
    and "generate_chart (render_fault env h) h (plt w) = (Inr buf, p)"
    and "get_perplexity_analysis (py env) (http_post env) sd = Inr analysis"
    and "format_stock_message (py env) symbol sd analysis = Inl e \<or>
         (\<exists>m. format_stock_message (py env) symbol sd analysis = Inr m \<and>
              chat_fault env (ReplyPhoto buf m) \<noteq> None)"
  shows "render_and_send env symbol sd w =
           chart_failure_branch env symbol sd (Some analysis) (w\<lparr>plt := p\<rparr>)"
  using assms
  by (auto simp: render_and_send_def prog_defs with_plt_def getitem_def chat_do_def)

lemma sample_timeout:
  "get_perplexity_analysis sample_builtins timeout_post (sample_data sample_info) =
     Inr (JStr (asc ''Unable to generate analysis: Request timed out''))"
proof -
  have fields:
    "info_get sample_info ''marketCap'' NA = PInt 2500000000000"
    "info_get sample_info ''volume'' NA = PInt 1234567"
    by (simp_all add: info_get_def sample_info_def)
  obtain prompt where "build_prompt sample_builtins (sample_data sample_info) = Inr prompt"
    by (simp add: build_prompt_def sample_data_fields getitem_def fields)
  then show ?thesis
    by (rule analysis_on_timeout [where e = "PyExn Timeout (asc ''Read timed out.'')"])
      (simp_all add: timeout_post_def)
qed

lemma sample_message:
  "format_stock_message sample_builtins (asc ''AAPL'') (sample_data sample_info)
       (JStr (asc ''**Strong** results.'')) =
     Inr ([0x1F4CA] @ asc '' *AAPL Stock Analysis*'' @ nl @ nl
          @ [0x1F4B0] @ asc '' Current Price: $189.84'' @ nl
          @ [0x1F4C8] @ asc '' Previous Close: $188.00'' @ nl
          @ [0x1F4B9] @ asc '' Market Cap: $2.50T'' @ nl
          @ [0x1F4CA] @ asc '' P/E Ratio: 7.50'' @ nl @ nl
          @ [0x1F4DD] @ asc '' *Analysis*:'' @ nl @ asc ''Strong results.'' @ nl @ nl)"
proof -
  have upper: "str_upper sample_builtins (asc ''AAPL'') = asc ''AAPL''"
    by (simp add: sample_builtins_def ascii_upper_def asc_def)
  show ?thesis
    unfolding format_stock_message_def compose_sample sample_clean upper
    by (simp add: truncate_message_def nl_def) (simp add: asc_def)
qed

lemma sample_run:
  "handle_stock sample_env (asc ''aapl'') start_world =
     (Inr (), \<lparr>chat = [ReplyText (processing_text (asc ''AAPL'')),
                       ReplyPhoto (ChartBuf sample_history)
                         ([0x1F4CA] @ asc '' *AAPL Stock Analysis*'' @ nl @ nl
                          @ [0x1F4B0] @ asc '' Current Price: $189.84'' @ nl
                          @ [0x1F4C8] @ asc '' Previous Close: $188.00'' @ nl
                          @ [0x1F4B9] @ asc '' Market Cap: $2.50T'' @ nl
                          @ [0x1F4CA] @ asc '' P/E Ratio: 7.50'' @ nl @ nl
                          @ [0x1F4DD] @ asc '' *Analysis*:'' @ nl @ asc ''Strong results.'' @ nl @ nl),
                       DeleteMessage],
               plt = \<lparr>figures = [1]\<rparr>\<rparr>)"
proof -
  have env: "py sample_env = sample_builtins" "yf sample_env = sample_provider"
    "render_fault sample_env = (\<lambda>h. no_fault)" "chat_fault sample_env = no_fault"
    "http_post sample_env = sample_post"
    by (simp_all add: sample_env_def)
  have lib: "str_upper sample_builtins = ascii_upper" "str_strip sample_builtins = ascii_strip"
    by (simp_all add: sample_builtins_def)
  let ?w1 = "\<lparr>chat = [ReplyText (processing_text (asc ''AAPL''))], plt = \<lparr>figures = []\<rparr>\<rparr>"
  have "render_and_send sample_env (asc ''AAPL'') (sample_data sample_info) ?w1 =
      (Inr (), \<lparr>chat = [ReplyText (processing_text (asc ''AAPL'')),
                       ReplyPhoto (ChartBuf sample_history)
                         ([0x1F4CA] @ asc '' *AAPL Stock Analysis*'' @ nl @ nl
                          @ [0x1F4B0] @ asc '' Current Price: $189.84'' @ nl
                          @ [0x1F4C8] @ asc '' Previous Close: $188.00'' @ nl
                          @ [0x1F4B9] @ asc '' Market Cap: $2.50T'' @ nl
                          @ [0x1F4CA] @ asc '' P/E Ratio: 7.50'' @ nl @ nl
                          @ [0x1F4DD] @ asc '' *Analysis*:'' @ nl @ asc ''Strong results.'' @ nl @ nl),
                       DeleteMessage],
               plt = \<lparr>figures = [1]\<rparr>\<rparr>)"
    by (simp add: render_and_send_def prog_defs with_plt_def getitem_def sample_data_fields env
        no_fault_run sample_analysis sample_message chat_do_def no_fault_def)
  then have "handle_stock_try sample_env (asc ''AAPL'') ?w1 =
      (Inr (), \<lparr>chat = [ReplyText (processing_text (asc ''AAPL'')),
                       ReplyPhoto (ChartBuf sample_history)
                         ([0x1F4CA] @ asc '' *AAPL Stock Analysis*'' @ nl @ nl
                          @ [0x1F4B0] @ asc '' Current Price: $189.84'' @ nl
                          @ [0x1F4C8] @ asc '' Previous Close: $188.00'' @ nl
                          @ [0x1F4B9] @ asc '' Market Cap: $2.50T'' @ nl
                          @ [0x1F4CA] @ asc '' P/E Ratio: 7.50'' @ nl @ nl
                          @ [0x1F4DD] @ asc '' *Analysis*:'' @ nl @ asc ''Strong results.'' @ nl @ nl),
                       DeleteMessage],
               plt = \<lparr>figures = [1]\<rparr>\<rparr>)"
    by (simp add: handle_stock_try_def prog_defs getitem_def env sample_provider_run
        sample_data_fields)
  then show ?thesis
    by (simp add: handle_stock_def Let_def prog_defs chat_do_def env lib start_world_def
        sample_symbol no_fault_def)
qed

lemma photo_fault_sample_run:
  "handle_stock photo_fault_env (asc ''aapl'') start_world =
     (Inr (), \<lparr>chat = [ReplyText (processing_text (asc ''AAPL'')),
                       EditText ([0x1F4CA] @ asc '' *AAPL - Stock Analysis*'' @ nl @ nl
                          @ [0x274C] @ asc '' Chart generation failed, but here's the analysis:''
                          @ nl @ nl
                          @ [0x1F4CA] @ asc '' *AAPL Stock Analysis*'' @ nl @ nl
                          @ [0x1F4B0] @ asc '' Current Price: $189.84'' @ nl
                          @ [0x1F4C8] @ asc '' Previous Close: $188.00'' @ nl
                          @ [0x1F4B9] @ asc '' Market Cap: $2.50T'' @ nl
                          @ [0x1F4CA] @ asc '' P/E Ratio: 7.50'' @ nl @ nl
                          @ [0x1F4DD] @ asc '' *Analysis*:'' @ nl @ asc ''Strong results.'' @ nl @ nl)],
               plt = \<lparr>figures = [1]\<rparr>\<rparr>)"
proof -
  have upper: "str_upper sample_builtins (asc ''AAPL'') = asc ''AAPL''"
    by (simp add: sample_builtins_def ascii_upper_def asc_def)
  show ?thesis
    using photo_fault_run [of "asc ''aapl''"] sample_message
    by (simp add: sample_symbol fallback_prefix_def upper) (simp add: asc_def)
qed

end
